theory Spec2Isabelle
  imports Complex_Main "HOL-Library.Word" "HOL-Library.Sublist"
begin

section \<open>Strings\<close>

text \<open>
  A JavaScript string is a sequence of UTF-16 code units. String literals of the
  sources are ASCII and are written \<open>js ''...''\<close>.
\<close>

type_synonym jsstring = "16 word list"

definition js :: "string \<Rightarrow> jsstring" where
  "js s = map (\<lambda>c. of_nat (of_char c)) s"

text \<open>
  \<open>String.prototype.trim\<close> removes the code units of WhiteSpace and LineTerminator
  from both ends: TAB, LF, VT, FF, CR, SP, NBSP, the Unicode space separators (category
  Zs), LS, PS and the byte order mark.
\<close>

definition isWhiteSpace :: "16 word \<Rightarrow> bool" where
  "isWhiteSpace c \<longleftrightarrow>
     c \<in> {0x9, 0xA, 0xB, 0xC, 0xD, 0x20, 0xA0, 0x1680, 0x2028, 0x2029, 0x202F, 0x205F,
          0x3000, 0xFEFF}
     \<or> (0x2000 \<le> c \<and> c \<le> 0x200A)"

definition trimStart :: "jsstring \<Rightarrow> jsstring" where
  "trimStart s = dropWhile isWhiteSpace s"

definition trimEnd :: "jsstring \<Rightarrow> jsstring" where
  "trimEnd s = rev (dropWhile isWhiteSpace (rev s))"

definition trim :: "jsstring \<Rightarrow> jsstring" where
  "trim s = trimEnd (trimStart s)"

text \<open>Decimal rendering of an array index, as a template literal \<open>${index}\<close> gives it.\<close>

function toString :: "nat \<Rightarrow> jsstring" where
  "toString n =
     (if n < 10 then [of_nat (48 + n)]
      else toString (n div 10) @ [of_nat (48 + n mod 10)])"
  by pat_completeness auto
termination
  by (relation "measure (\<lambda>n. n)") auto

section \<open>The trip form: \<open>src/components/TripModal.tsx\<close>\<close>

record latlng =
  lat :: real
  lng :: real

record PlaceSuggestion =
  description :: jsstring
  place_id :: jsstring

text \<open>The eight \<open>useState\<close> cells of the component, with their initial values.\<close>

record form =
  tripName :: jsstring
  destination :: jsstring
  stops :: "jsstring list"
  newStop :: jsstring
  isLoading :: bool
  error :: jsstring
  suggestions :: "PlaceSuggestion list"
  currentLocation :: "latlng option"

definition init_form :: form where
  "init_form =
     \<lparr>tripName = [], destination = [], stops = [], newStop = [], isLoading = False,
      error = [], suggestions = [], currentLocation = None\<rparr>"

subsection \<open>Geolocation callbacks of the mount effect\<close>

definition geolocation_success :: "latlng \<Rightarrow> 'a form_scheme \<Rightarrow> 'a form_scheme" where
  "geolocation_success coords st = st\<lparr>currentLocation := Some coords\<rparr>"

definition geolocation_error :: "'a form_scheme \<Rightarrow> 'a form_scheme" where
  "geolocation_error st =
     st\<lparr>error := js ''Unable to get your current location. Please enable location services.''\<rparr>"

subsection \<open>Place suggestions\<close>

definition mockSuggestions :: "jsstring \<Rightarrow> PlaceSuggestion list" where
  "mockSuggestions input =
     [\<lparr>description = input @ js '', New York, USA'', place_id = js ''1''\<rparr>,
      \<lparr>description = input @ js '', California, USA'', place_id = js ''2''\<rparr>,
      \<lparr>description = input @ js '', Texas, USA'', place_id = js ''3''\<rparr>]"

definition getPlaceSuggestions :: "jsstring \<Rightarrow> 'a form_scheme \<Rightarrow> 'a form_scheme" where
  "getPlaceSuggestions input st =
     (if trim input = [] then st\<lparr>suggestions := []\<rparr>
      else st\<lparr>suggestions := mockSuggestions input\<rparr>)"

definition setTripName :: "jsstring \<Rightarrow> 'a form_scheme \<Rightarrow> 'a form_scheme" where
  "setTripName v st = st\<lparr>tripName := v\<rparr>"

definition setNewStop :: "jsstring \<Rightarrow> 'a form_scheme \<Rightarrow> 'a form_scheme" where
  "setNewStop v st = st\<lparr>newStop := v\<rparr>"

definition handleDestinationChange :: "jsstring \<Rightarrow> 'a form_scheme \<Rightarrow> 'a form_scheme" where
  "handleDestinationChange v st = getPlaceSuggestions v (st\<lparr>destination := v\<rparr>)"

definition handleSuggestionClick :: "PlaceSuggestion \<Rightarrow> 'a form_scheme \<Rightarrow> 'a form_scheme" where
  "handleSuggestionClick suggestion st =
     st\<lparr>destination := description suggestion, suggestions := []\<rparr>"

subsection \<open>Stops\<close>

definition handleAddStop :: "'a form_scheme \<Rightarrow> 'a form_scheme" where
  "handleAddStop st =
     (if trim (newStop st) \<noteq> [] then st\<lparr>stops := stops st @ [trim (newStop st)], newStop := []\<rparr>
      else st)"

text \<open>
  \<open>stops.filter((_, i) => i !== index)\<close>: the callback sees every entry with its
  position \<open>0, 1, ...\<close> and keeps the entries whose position differs from \<open>index\<close>.
\<close>

definition filter_index :: "int \<Rightarrow> 'b list \<Rightarrow> 'b list" where
  "filter_index index xs =
     map snd (filter (\<lambda>p. int (fst p) \<noteq> index) (enumerate 0 xs))"

definition handleRemoveStop :: "int \<Rightarrow> 'a form_scheme \<Rightarrow> 'a form_scheme" where
  "handleRemoveStop index st = st\<lparr>stops := filter_index index (stops st)\<rparr>"

subsection \<open>Submission\<close>

text \<open>The session snapshot that \<open>useAuth\<close> supplies (\<open>src/contexts/AuthContext.tsx\<close>).\<close>

record User =
  uid :: jsstring
  displayName :: "jsstring option"
  email :: "jsstring option"
  photoURL :: "jsstring option"

text \<open>\<open>currentUser?.uid || fallback\<close>: the fallback replaces every falsy left operand.\<close>

definition uid_or :: "User option \<Rightarrow> jsstring \<Rightarrow> jsstring" where
  "uid_or currentUser fallback =
     (case currentUser of
        None \<Rightarrow> fallback
      | Some u \<Rightarrow> if uid u = [] then fallback else uid u)"

record place =
  name :: jsstring
  location :: latlng

record stop_data = place +
  id_stop :: jsstring

record tripData =
  trip_name :: jsstring
  trip_origin :: place
  trip_destination :: place
  trip_stops :: "stop_data list"
  trip_participants :: "jsstring list"
  trip_createdBy :: jsstring

text \<open>The payload and the request of the direct HTTP variant (\<open>unnamed/part_000\<close>).\<close>

record tripData_http =
  http_name :: jsstring
  http_origin :: place
  http_destination :: place
  http_stops :: "place list"
  http_createdBy :: jsstring

record request =
  http_method :: jsstring
  content_type :: jsstring
  body :: tripData_http

text \<open>
  A value that is thrown or that rejects a promise: an \<open>Error\<close> made by the component, the
  \<open>TypeError\<close> of destructuring \<open>null\<close>, or a value coming from a collaborator.
\<close>

datatype thrown = Error jsstring | TypeError | External nat

text \<open>
  What the \<open>shareLink\<close> property of the parsed response holds: \<open>Undefined\<close> when the
  property is absent, a string, or some other JSON value.
\<close>

datatype jsval = Undefined | String jsstring | NonString nat

text \<open>
  Every call a submit handler makes, in program order: the state setters, and the calls to
  collaborators.
\<close>

datatype action =
    PreventDefault
  | SetIsLoading bool
  | SetError jsstring
  | ConsoleError thrown
  | CreateTrip tripData
  | OnClose
  | Navigate jsstring
  | Fetch jsstring request
  | SetShareableLink jsval
  | SetShowShareView bool

fun is_request :: "action \<Rightarrow> bool" where
  "is_request (CreateTrip _) = True"
| "is_request (Fetch _ _) = True"
| "is_request _ = False"

definition requests :: "action list \<Rightarrow> action list" where
  "requests as = filter is_request as"

fun apply_action :: "action \<Rightarrow> 'a form_scheme \<Rightarrow> 'a form_scheme" where
  "apply_action (SetIsLoading b) st = st\<lparr>isLoading := b\<rparr>"
| "apply_action (SetError m) st = st\<lparr>error := m\<rparr>"
| "apply_action _ st = st"

definition run :: "action list \<Rightarrow> 'a form_scheme \<Rightarrow> 'a form_scheme" where
  "run as st = fold apply_action as st"

text \<open>
  The collaborators of \<open>handleSubmit\<close>: the values \<open>Math.random()\<close> returns, in call order;
  \<open>createTrip\<close> of the trip context, resolving to a trip id (in the form the template
  literal gives it) or rejecting; \<open>onClose\<close> and \<open>navigate\<close>, returning or throwing.
\<close>

record env =
  math_random :: "nat \<Rightarrow> real"
  createTrip :: "tripData \<Rightarrow> thrown + jsstring"
  onClose :: "thrown option"
  navigate :: "jsstring \<Rightarrow> thrown option"

text \<open>
  \<open>mockCoordinates(place)\<close>, called when \<open>k\<close> random numbers have been drawn: it ignores
  the place and draws two more. Floating-point rounding is not modelled.
\<close>

definition mockCoordinates :: "(nat \<Rightarrow> real) \<Rightarrow> nat \<Rightarrow> jsstring \<Rightarrow> latlng" where
  "mockCoordinates rnd k place_name =
     \<lparr>lat = 37.7749 + rnd k * 5, lng = - 122.4194 + rnd (Suc k) * 5\<rparr>"

definition stopsData :: "(nat \<Rightarrow> real) \<Rightarrow> jsstring list \<Rightarrow> stop_data list" where
  "stopsData rnd xs =
     map (\<lambda>p. \<lparr>name = snd p, location = mockCoordinates rnd (2 * fst p) (snd p),
               id_stop = js ''stop'' @ toString (fst p)\<rparr>)
       (enumerate 0 xs)"

definition build_tripData :: "(nat \<Rightarrow> real) \<Rightarrow> User option \<Rightarrow> latlng \<Rightarrow> 'a form_scheme \<Rightarrow> tripData" where
  "build_tripData rnd currentUser loc st =
     \<lparr>trip_name = tripName st,
      trip_origin = \<lparr>name = js ''Current Location'', location = loc\<rparr>,
      trip_destination =
        \<lparr>name = destination st,
         location = mockCoordinates rnd (2 * length (stops st)) (destination st)\<rparr>,
      trip_stops = stopsData rnd (stops st),
      trip_participants = [uid_or currentUser (js ''user123'')],
      trip_createdBy = uid_or currentUser (js ''user123'')\<rparr>"

definition validation_message :: jsstring where
  "validation_message =
     js ''Please fill in all required fields and ensure location services are enabled''"

definition failure_message :: jsstring where
  "failure_message = js ''Failed to create trip. Please try again.''"

text \<open>The \<open>try\<close> block: the calls it makes and the value it throws, if any.\<close>

definition try_block :: "env \<Rightarrow> User option \<Rightarrow> latlng \<Rightarrow> 'a form_scheme \<Rightarrow> action list \<times> thrown option" where
  "try_block e currentUser loc st =
     (let data = build_tripData (math_random e) currentUser loc st in
      case createTrip e data of
        Inl x \<Rightarrow> ([CreateTrip data], Some x)
      | Inr tripId \<Rightarrow>
          (case onClose e of
             Some x \<Rightarrow> ([CreateTrip data, OnClose], Some x)
           | None \<Rightarrow>
               (case navigate e (js ''/trip/'' @ tripId) of
                  Some x \<Rightarrow> ([CreateTrip data, OnClose, Navigate (js ''/trip/'' @ tripId)], Some x)
                | None \<Rightarrow> ([CreateTrip data, OnClose, Navigate (js ''/trip/'' @ tripId)], None))))"

text \<open>\<open>catch (err) { setError(...); console.error(err) }\<close>\<close>

definition catch_block :: "action list \<times> thrown option \<Rightarrow> action list" where
  "catch_block r =
     (case snd r of
        None \<Rightarrow> fst r
      | Some x \<Rightarrow> fst r @ [SetError failure_message, ConsoleError x])"

definition handleSubmit :: "env \<Rightarrow> User option \<Rightarrow> 'a form_scheme \<Rightarrow> action list" where
  "handleSubmit e currentUser st =
     PreventDefault #
     (if tripName st = [] \<or> destination st = [] \<or> currentLocation st = None
      then [SetError validation_message]
      else
        (case currentLocation st of
           None \<Rightarrow> [SetError validation_message]
         | Some loc \<Rightarrow>
             [SetIsLoading True, SetError []]
             @ catch_block (try_block e currentUser loc st)
             @ [SetIsLoading False]))"

section \<open>The trip form with direct HTTP submission: \<open>unnamed/part_000\<close>\<close>

record form_http = form +
  shareableLink :: jsval
  showShareView :: bool

definition init_form_http :: form_http where
  "init_form_http =
     \<lparr>tripName = [], destination = [], stops = [], newStop = [], isLoading = False,
      error = [], suggestions = [], currentLocation = None,
      shareableLink = String [], showShareView = False\<rparr>"

fun apply_action_http :: "action \<Rightarrow> form_http \<Rightarrow> form_http" where
  "apply_action_http (SetShareableLink v) st = st\<lparr>shareableLink := v\<rparr>"
| "apply_action_http (SetShowShareView b) st = st\<lparr>showShareView := b\<rparr>"
| "apply_action_http a st = apply_action a st"

definition run_http :: "action list \<Rightarrow> form_http \<Rightarrow> form_http" where
  "run_http as st = fold apply_action_http as st"

text \<open>
  The response of \<open>fetch\<close>: its \<open>ok\<close> flag, and what \<open>response.json()\<close> settles to. A
  parsed body is \<open>null\<close>, or a value whose \<open>shareLink\<close> property reads as given.
\<close>

datatype json = JsonNull | JsonValue jsval

record response =
  ok :: bool
  json :: "thrown + json"

definition zero_coordinates :: latlng where
  "zero_coordinates = \<lparr>lat = 0, lng = 0\<rparr>"

definition build_tripData_http :: "User option \<Rightarrow> latlng \<Rightarrow> 'a form_scheme \<Rightarrow> tripData_http" where
  "build_tripData_http currentUser loc st =
     \<lparr>http_name = tripName st,
      http_origin = \<lparr>name = js ''Current Location'', location = loc\<rparr>,
      http_destination = \<lparr>name = destination st, location = zero_coordinates\<rparr>,
      http_stops = map (\<lambda>stop. \<lparr>name = stop, location = zero_coordinates\<rparr>) (stops st),
      http_createdBy = uid_or currentUser []\<rparr>"

definition newtrip_url :: jsstring where
  "newtrip_url = js ''https://mapsync.onrender.com/newtrip''"

definition build_request :: "tripData_http \<Rightarrow> request" where
  "build_request data =
     \<lparr>http_method = js ''POST'', content_type = js ''application/json'', body = data\<rparr>"

definition try_block_http ::
  "(jsstring \<Rightarrow> request \<Rightarrow> thrown + response) \<Rightarrow> User option \<Rightarrow> latlng \<Rightarrow> 'a form_scheme
     \<Rightarrow> action list \<times> thrown option" where
  "try_block_http fetch currentUser loc st =
     (let req = build_request (build_tripData_http currentUser loc st) in
      case fetch newtrip_url req of
        Inl x \<Rightarrow> ([Fetch newtrip_url req], Some x)
      | Inr resp \<Rightarrow>
          if \<not> ok resp then ([Fetch newtrip_url req], Some (Error (js ''Failed to create trip'')))
          else
            (case json resp of
               Inl x \<Rightarrow> ([Fetch newtrip_url req], Some x)
             | Inr JsonNull \<Rightarrow> ([Fetch newtrip_url req], Some TypeError)
             | Inr (JsonValue shareLink) \<Rightarrow>
                 ([Fetch newtrip_url req, SetShareableLink shareLink, SetShowShareView True],
                  None)))"

definition handleSubmit_http ::
  "(jsstring \<Rightarrow> request \<Rightarrow> thrown + response) \<Rightarrow> User option \<Rightarrow> 'a form_scheme \<Rightarrow> action list" where
  "handleSubmit_http fetch currentUser st =
     PreventDefault #
     (if tripName st = [] \<or> destination st = [] \<or> currentLocation st = None
      then [SetError validation_message]
      else
        (case currentLocation st of
           None \<Rightarrow> [SetError validation_message]
         | Some loc \<Rightarrow>
             [SetIsLoading True, SetError []]
             @ catch_block (try_block_http fetch currentUser loc st)
             @ [SetIsLoading False]))"

section \<open>The session manager: \<open>src/contexts/AuthContext.tsx\<close>\<close>

text \<open>The user object of the identity provider carries more than the snapshot keeps.\<close>

record FirebaseUser = User +
  emailVerified :: bool
  isAnonymous :: bool

definition snapshot :: "FirebaseUser \<Rightarrow> User" where
  "snapshot user =
     \<lparr>uid = uid user, displayName = displayName user, email = email user,
      photoURL = photoURL user\<rparr>"

text \<open>The provider's state cells, and the browser's local storage.\<close>

record auth =
  currentUser :: "User option"
  loading :: bool
  localStorage :: "jsstring \<rightharpoonup> jsstring"

definition init_auth :: "(jsstring \<rightharpoonup> jsstring) \<Rightarrow> auth" where
  "init_auth storage = \<lparr>currentUser = None, loading = True, localStorage = storage\<rparr>"

datatype auth_action =
    SignInWithPopup
  | SignOut
  | SetCurrentUser "User option"
  | SetLoading bool
  | RemoveItem jsstring
  | ConsoleErrorAuth jsstring thrown

fun apply_auth :: "auth_action \<Rightarrow> auth \<Rightarrow> auth" where
  "apply_auth (SetCurrentUser u) st = st\<lparr>currentUser := u\<rparr>"
| "apply_auth (SetLoading b) st = st\<lparr>loading := b\<rparr>"
| "apply_auth (RemoveItem k) st = st\<lparr>localStorage := (localStorage st)(k := None)\<rparr>"
| "apply_auth _ st = st"

definition run_auth :: "auth_action list \<Rightarrow> auth \<Rightarrow> auth" where
  "run_auth as st = fold apply_auth as st"

text \<open>
  \<open>login\<close> and \<open>logout\<close>, given what the provider call settles to: the calls made, and the
  value the returned promise rejects with (\<open>None\<close> when it resolves).
\<close>

definition login :: "thrown + FirebaseUser \<Rightarrow> auth_action list \<times> thrown option" where
  "login signInWithPopup =
     (case signInWithPopup of
        Inr user \<Rightarrow> ([SignInWithPopup, SetCurrentUser (Some (snapshot user))], None)
      | Inl x \<Rightarrow> ([SignInWithPopup, ConsoleErrorAuth (js ''Error during login:'') x], Some x))"

definition logout :: "thrown + unit \<Rightarrow> auth_action list \<times> thrown option" where
  "logout signOut =
     (case signOut of
        Inr _ \<Rightarrow> ([SignOut, SetCurrentUser None, RemoveItem (js ''user'')], None)
      | Inl x \<Rightarrow> ([SignOut, ConsoleErrorAuth (js ''Error during logout:'') x], Some x))"

text \<open>The callback subscribed with \<open>onAuthStateChanged\<close>.\<close>

definition authStateChanged :: "FirebaseUser option \<Rightarrow> auth_action list" where
  "authStateChanged user =
     (case user of
        Some u \<Rightarrow> [SetCurrentUser (Some (snapshot u)), SetLoading False]
      | None \<Rightarrow> [SetCurrentUser None, SetLoading False])"

section \<open>Reachable form states\<close>

text \<open>
  The states a form goes through from its initial state \<open>init\<close>: every event handler of
  the component may run, with any argument, and every setter call of a submission may land
  between two other events while its request is in flight (\<open>app\<close> applies one call).
\<close>

inductive reachable_from ::
  "'a form_scheme \<Rightarrow> (action \<Rightarrow> 'a form_scheme \<Rightarrow> 'a form_scheme) \<Rightarrow> 'a form_scheme \<Rightarrow> bool"
  for init :: "'a form_scheme" and app :: "action \<Rightarrow> 'a form_scheme \<Rightarrow> 'a form_scheme" where
    initial: "reachable_from init app init"
  | located: "reachable_from init app st \<Longrightarrow> reachable_from init app (geolocation_success coords st)"
  | unlocated: "reachable_from init app st \<Longrightarrow> reachable_from init app (geolocation_error st)"
  | named: "reachable_from init app st \<Longrightarrow> reachable_from init app (setTripName v st)"
  | destined: "reachable_from init app st \<Longrightarrow> reachable_from init app (handleDestinationChange v st)"
  | suggested: "reachable_from init app st \<Longrightarrow> reachable_from init app (handleSuggestionClick s st)"
  | typed: "reachable_from init app st \<Longrightarrow> reachable_from init app (setNewStop v st)"
  | added: "reachable_from init app st \<Longrightarrow> reachable_from init app (handleAddStop st)"
  | removed: "reachable_from init app st \<Longrightarrow> reachable_from init app (handleRemoveStop index st)"
  | called: "reachable_from init app st \<Longrightarrow> reachable_from init app (app a st)"

definition reachable :: "form \<Rightarrow> bool" where
  "reachable st = reachable_from init_form apply_action st"

definition reachable_http :: "form_http \<Rightarrow> bool" where
  "reachable_http st = reachable_from init_form_http apply_action_http st"

section \<open>Reading a request, and the scenario of the specification\<close>

fun created_by :: "action \<Rightarrow> jsstring option" where
  "created_by (CreateTrip d) = Some (trip_createdBy d)"
| "created_by (Fetch _ r) = Some (http_createdBy (body r))"
| "created_by _ = None"

fun stop_names :: "action \<Rightarrow> jsstring list option" where
  "stop_names (CreateTrip d) = Some (map name (trip_stops d))"
| "stop_names (Fetch _ r) = Some (map name (http_stops (body r)))"
| "stop_names _ = None"

text \<open>
  Origin \<open>{lat: 40.7, lng: -74.0}\<close>, name \<open>"Weekend Trip"\<close>, destination
  \<open>"Boston, MA"\<close>, no stops.
\<close>

definition weekend_form :: form where
  "weekend_form =
     init_form\<lparr>tripName := js ''Weekend Trip'', destination := js ''Boston, MA'',
       currentLocation := Some \<lparr>lat = 40.7, lng = - 74.0\<rparr>\<rparr>"

definition weekend_form_http :: form_http where
  "weekend_form_http =
     init_form_http\<lparr>tripName := js ''Weekend Trip'', destination := js ''Boston, MA'',
       currentLocation := Some \<lparr>lat = 40.7, lng = - 74.0\<rparr>\<rparr>"

definition alice :: User where
  "alice = \<lparr>uid = js ''u42'', displayName = Some (js ''Alice''), email = None, photoURL = None\<rparr>"

definition nameless :: User where
  "nameless = \<lparr>uid = [], displayName = None, email = None, photoURL = None\<rparr>"

definition alice_firebase :: FirebaseUser where
  "alice_firebase =
     \<lparr>uid = js ''u42'', displayName = Some (js ''Alice''), email = None, photoURL = None,
      emailVerified = True, isAnonymous = False\<rparr>"

definition env_resolving :: env where
  "env_resolving =
     \<lparr>math_random = (\<lambda>k. 1 / 2), createTrip = (\<lambda>d. Inr (js ''t7'')), onClose = None,
      navigate = (\<lambda>path. None)\<rparr>"

definition env_rejecting :: env where
  "env_rejecting =
     \<lparr>math_random = (\<lambda>k. 1 / 2), createTrip = (\<lambda>d. Inl (External 1)), onClose = None,
      navigate = (\<lambda>path. None)\<rparr>"

definition fetch_created :: "jsstring \<Rightarrow> request \<Rightarrow> thrown + response" where
  "fetch_created url req =
     Inr \<lparr>ok = True, json = Inr (JsonValue (String (js ''https://mapsync.example/t7'')))\<rparr>"

definition fetch_refused :: "jsstring \<Rightarrow> request \<Rightarrow> thrown + response" where
  "fetch_refused url req = Inr \<lparr>ok = False, json = Inr JsonNull\<rparr>"

definition fetch_offline :: "jsstring \<Rightarrow> request \<Rightarrow> thrown + response" where
  "fetch_offline url req = Inl (External 2)"

definition signed_in :: auth where
  "signed_in =
     \<lparr>currentUser = Some alice, loading = False,
      localStorage = [js ''user'' \<mapsto> js ''u42'', js ''theme'' \<mapsto> js ''dark'']\<rparr>"

section \<open>Trimming\<close>

lemma dropWhile_all_iff: "(\<forall>c\<in>set (dropWhile P s). P c) \<longleftrightarrow> (\<forall>c\<in>set s. P c)"
  by (induction s) auto

lemma trim_Nil_iff: "trim s = [] \<longleftrightarrow> (\<forall>c\<in>set s. isWhiteSpace c)"
  by (simp add: trim_def trimEnd_def trimStart_def dropWhile_eq_Nil_conv dropWhile_all_iff
      del: set_rev) (simp add: dropWhile_all_iff)

lemma dropWhile_id: "xs \<noteq> [] \<Longrightarrow> \<not> P (hd xs) \<Longrightarrow> dropWhile P xs = xs"
  by (cases xs) auto

lemma trimEnd_append: "\<exists>ws. s = trimEnd s @ ws"
proof -
  have "trimEnd s @ rev (takeWhile isWhiteSpace (rev s)) =
      rev (takeWhile isWhiteSpace (rev s) @ dropWhile isWhiteSpace (rev s))"
    by (simp only: trimEnd_def rev_append)
  also have "\<dots> = rev (rev s)" by (simp only: takeWhile_dropWhile_id)
  finally have "s = trimEnd s @ rev (takeWhile isWhiteSpace (rev s))" by simp
  then show ?thesis ..
qed

lemma hd_trim: "trim s \<noteq> [] \<Longrightarrow> \<not> isWhiteSpace (hd (trim s))"
proof -
  assume ne: "trim s \<noteq> []"
  obtain ws where d: "trimStart s = trim s @ ws"
    using trimEnd_append [of "trimStart s"] by (auto simp: trim_def)
  with ne have "trimStart s \<noteq> []" and "hd (trimStart s) = hd (trim s)" by auto
  then show ?thesis using hd_dropWhile [of isWhiteSpace s] by (simp add: trimStart_def)
qed

lemma last_trim: "trim s \<noteq> [] \<Longrightarrow> \<not> isWhiteSpace (last (trim s))"
proof -
  assume ne: "trim s \<noteq> []"
  then have n: "dropWhile isWhiteSpace (rev (trimStart s)) \<noteq> []"
    by (simp add: trim_def trimEnd_def)
  have "last (trim s) = hd (dropWhile isWhiteSpace (rev (trimStart s)))"
    using n by (simp add: trim_def trimEnd_def last_rev)
  then show ?thesis using hd_dropWhile [OF n] by simp
qed

lemma trim_idem: "trim (trim s) = trim s"
proof (cases "trim s = []")
  case True
  have "trim [] = []" by (simp add: trim_def trimEnd_def trimStart_def)
  with True show ?thesis by simp
next
  case False
  have a: "trimStart (trim s) = trim s"
    using False hd_trim [OF False] by (simp add: trimStart_def dropWhile_id)
  have "rev (trim s) \<noteq> []" and "\<not> isWhiteSpace (hd (rev (trim s)))"
    using False last_trim [OF False] by (simp_all add: hd_rev)
  then have "dropWhile isWhiteSpace (rev (trim s)) = rev (trim s)"
    by (rule dropWhile_id)
  then have b: "trimEnd (trim s) = trim s" by (simp add: trimEnd_def)
  show ?thesis using a b by (simp add: trim_def [of "trim s"])
qed

section \<open>Removal by position\<close>

lemma filter_index_outside:
  "j < int n \<or> int (n + length xs) \<le> j \<Longrightarrow>
   map snd (filter (\<lambda>p. int (fst p) \<noteq> j) (enumerate n xs)) = xs"
  by (induction xs arbitrary: n) auto

lemma filter_index_inside:
  "k < length xs \<Longrightarrow>
   map snd (filter (\<lambda>p. int (fst p) \<noteq> int (n + k)) (enumerate n xs)) = take k xs @ drop (Suc k) xs"
proof (induction xs arbitrary: n k)
  case Nil
  then show ?case by simp
next
  case (Cons x xs)
  show ?case
  proof (cases k)
    case 0
    then show ?thesis using filter_index_outside [of "int n" "Suc n" xs] by simp
  next
    case (Suc k')
    then show ?thesis using Cons.IH [of k' "Suc n"] Cons.prems by simp
  qed
qed

lemma filter_index_in_range:
  "0 \<le> i \<Longrightarrow> i < int (length xs) \<Longrightarrow> filter_index i xs = take (nat i) xs @ drop (Suc (nat i)) xs"
  using filter_index_inside [of "nat i" xs 0] by (simp add: filter_index_def)

lemma filter_index_out_of_range:
  "i < 0 \<or> int (length xs) \<le> i \<Longrightarrow> filter_index i xs = xs"
  using filter_index_outside [of i 0 xs] by (simp add: filter_index_def)

section \<open>Claims about the stops list\<close>

text \<open>
  Claim C4. Adding a stop whose text is only whitespace changes nothing; adding a text with
  a character that is not whitespace appends one entry, its trimmed form, after all prior
  entries, which keep their order; removing at a position \<open>i\<close> of the list yields the
  entries before \<open>i\<close> followed by the entries after \<open>i\<close>. Nothing asks the entries to be
  distinct.
\<close>

theorem stops_add_remove:
  "((\<forall>c\<in>set (newStop st). isWhiteSpace c) \<longrightarrow> handleAddStop st = st)
   \<and> ((\<exists>c\<in>set (newStop st). \<not> isWhiteSpace c) \<longrightarrow>
        stops (handleAddStop st) = stops st @ [trim (newStop st)])
   \<and> (0 \<le> i \<and> i < int (length (stops st)) \<longrightarrow>
        stops (handleRemoveStop i st) = take (nat i) (stops st) @ drop (Suc (nat i)) (stops st))"
  using trim_Nil_iff [of "newStop st"] filter_index_in_range [of i "stops st"]
  by (simp add: handleAddStop_def handleRemoveStop_def)

theorem stops_add_remove_witness:
  "list_all isWhiteSpace (newStop (setNewStop (js ''   '') init_form))
   \<and> handleAddStop (setNewStop (js ''   '') init_form) = setNewStop (js ''   '') init_form
   \<and> (\<exists>c\<in>set (newStop (init_form\<lparr>stops := [js ''Reno'', js ''Reno''], newStop := js ''Lake Tahoe''\<rparr>)).
        \<not> isWhiteSpace c)
   \<and> stops (handleAddStop (init_form\<lparr>stops := [js ''Reno'', js ''Reno''], newStop := js ''Lake Tahoe''\<rparr>))
       = [js ''Reno'', js ''Reno'', js ''Lake Tahoe'']
   \<and> (0::int) \<le> 1 \<and> (1::int) < int (length (stops (init_form\<lparr>stops := [js ''Reno'', js ''Elko'', js ''Reno'']\<rparr>)))
   \<and> stops (handleRemoveStop 1 (init_form\<lparr>stops := [js ''Reno'', js ''Elko'', js ''Reno'']\<rparr>))
       = [js ''Reno'', js ''Reno'']"
proof -
  have blank: "\<forall>c\<in>set (newStop (setNewStop (js ''   '') init_form)). isWhiteSpace c"
    by (simp add: setNewStop_def init_form_def js_def isWhiteSpace_def)
  have inked: "\<exists>c\<in>set (newStop (init_form\<lparr>stops := [js ''Reno'', js ''Reno''], newStop := js ''Lake Tahoe''\<rparr>)).
        \<not> isWhiteSpace c"
    by (simp add: init_form_def js_def isWhiteSpace_def)
  have tr: "trim (js ''Lake Tahoe'') = js ''Lake Tahoe''"
    by (simp add: trim_def trimEnd_def trimStart_def js_def isWhiteSpace_def)
  show ?thesis
    using blank inked tr
      stops_add_remove [of "setNewStop (js ''   '') init_form" 0]
      stops_add_remove [of "init_form\<lparr>stops := [js ''Reno'', js ''Reno''], newStop := js ''Lake Tahoe''\<rparr>" 0]
      stops_add_remove [of "init_form\<lparr>stops := [js ''Reno'', js ''Elko'', js ''Reno'']\<rparr>" 1]
    by (simp add: init_form_def list_all_iff)
qed

text \<open>
  Claim C9. Removing at an index that is negative, or at least the length of the list,
  leaves the form as it is; \<open>handleRemoveStop\<close> is a total function of any integer index.
\<close>

theorem remove_out_of_range:
  "i < 0 \<or> int (length (stops st)) \<le> i \<Longrightarrow> handleRemoveStop i st = st"
  using filter_index_out_of_range [of i "stops st"] by (simp add: handleRemoveStop_def)

theorem remove_out_of_range_witness:
  "((- 1 :: int) < 0 \<or> int (length (stops (init_form\<lparr>stops := [js ''Reno'', js ''Elko'']\<rparr>))) \<le> - 1)
   \<and> handleRemoveStop (- 1) (init_form\<lparr>stops := [js ''Reno'', js ''Elko'']\<rparr>)
       = init_form\<lparr>stops := [js ''Reno'', js ''Elko'']\<rparr>
   \<and> ((2 :: int) < 0 \<or> int (length (stops (init_form\<lparr>stops := [js ''Reno'', js ''Elko'']\<rparr>))) \<le> 2)
   \<and> stops (handleRemoveStop 2 (init_form\<lparr>stops := [js ''Reno'', js ''Elko'']\<rparr>))
       = [js ''Reno'', js ''Elko'']"
  using remove_out_of_range [of "- 1" "init_form\<lparr>stops := [js ''Reno'', js ''Elko'']\<rparr>"]
    remove_out_of_range [of 2 "init_form\<lparr>stops := [js ''Reno'', js ''Elko'']\<rparr>"]
  by (simp add: init_form_def)

section \<open>Claims about the place suggestions\<close>

text \<open>
  Claim C5. For an input of whitespace only (the empty string included) the lookup leaves
  the empty list of suggestions; for an input with a character that is not whitespace it
  leaves exactly three suggestions, and the description of each contains the input.
\<close>

theorem suggestions_lookup:
  "((\<forall>c\<in>set input. isWhiteSpace c) \<longrightarrow> suggestions (getPlaceSuggestions input st) = [])
   \<and> ((\<exists>c\<in>set input. \<not> isWhiteSpace c) \<longrightarrow>
        length (suggestions (getPlaceSuggestions input st)) = 3
        \<and> (\<forall>s\<in>set (suggestions (getPlaceSuggestions input st)). sublist input (description s)))"
  using trim_Nil_iff [of input]
  by (auto simp: getPlaceSuggestions_def mockSuggestions_def)

theorem suggestions_lookup_witness:
  "list_all isWhiteSpace [] \<and> suggestions (getPlaceSuggestions [] init_form) = []
   \<and> (\<exists>c\<in>set (js ''Austin''). \<not> isWhiteSpace c)
   \<and> length (suggestions (getPlaceSuggestions (js ''Austin'') init_form)) = 3
   \<and> list_all (\<lambda>s. sublist (js ''Austin'') (description s))
        (suggestions (getPlaceSuggestions (js ''Austin'') init_form))"
proof -
  have inked: "\<exists>c\<in>set (js ''Austin''). \<not> isWhiteSpace c"
    by (simp add: js_def isWhiteSpace_def)
  show ?thesis
    using inked suggestions_lookup [of "[]" init_form] suggestions_lookup [of "js ''Austin''" init_form]
    by (simp add: list_all_iff)
qed

section \<open>The stored stops are trimmed\<close>

lemma stops_apply_action: "stops (apply_action a st) = stops st"
  by (cases a) simp_all

lemma stops_apply_action_http: "stops (apply_action_http a st) = stops st"
  by (cases a) simp_all

lemma set_filter_index: "set (filter_index i xs) \<subseteq> set xs"
  by (auto simp: filter_index_def in_set_enumerate_eq)

lemma trimmed_handleAddStop:
  "\<forall>s\<in>set (stops st). s \<noteq> [] \<and> trim s = s \<Longrightarrow>
   \<forall>s\<in>set (stops (handleAddStop st)). s \<noteq> [] \<and> trim s = s"
  by (simp add: handleAddStop_def trim_idem)

lemma trimmed_handleRemoveStop:
  "\<forall>s\<in>set (stops st). s \<noteq> [] \<and> trim s = s \<Longrightarrow>
   \<forall>s\<in>set (stops (handleRemoveStop i st)). s \<noteq> [] \<and> trim s = s"
  using set_filter_index [of i "stops st"] by (auto simp: handleRemoveStop_def)

lemma stops_unchanged:
  "stops (geolocation_success coords st) = stops st"
  "stops (geolocation_error st) = stops st"
  "stops (setTripName v st) = stops st"
  "stops (handleDestinationChange v st) = stops st"
  "stops (handleSuggestionClick sg st) = stops st"
  "stops (setNewStop v st) = stops st"
  by (simp_all add: geolocation_success_def geolocation_error_def setTripName_def
      handleDestinationChange_def getPlaceSuggestions_def handleSuggestionClick_def
      setNewStop_def)

lemma reachable_from_trimmed:
  assumes "reachable_from init app st"
    and "stops init = []"
    and "\<And>a s. stops (app a s) = stops s"
  shows "\<forall>s\<in>set (stops st). s \<noteq> [] \<and> trim s = s"
  using assms(1)
proof (induction rule: reachable_from.induct)
  case initial
  show ?case by (simp add: assms(2))
next
  case (added st)
  from added.IH show ?case by (rule trimmed_handleAddStop)
next
  case (removed st index)
  from removed.IH show ?case by (rule trimmed_handleRemoveStop)
next
  case (called st a)
  from called.IH show ?case by (simp only: assms(3))
next
  case (located st coords)
  from located.IH show ?case by (simp only: stops_unchanged)
next
  case (unlocated st)
  from unlocated.IH show ?case by (simp only: stops_unchanged)
next
  case (named st v)
  from named.IH show ?case by (simp only: stops_unchanged)
next
  case (destined st v)
  from destined.IH show ?case by (simp only: stops_unchanged)
next
  case (suggested st s)
  from suggested.IH show ?case by (simp only: stops_unchanged)
next
  case (typed st v)
  from typed.IH show ?case by (simp only: stops_unchanged)
qed

text \<open>
  Claim C8. Every entry of the stops list, in every state a form can reach from its
  initial state (in either variant of the component), is a non-empty string equal to its
  own trimmed form; and both stops operations, adding (which appends the trimmed text)
  and removing at any index, keep this true of any form it is true of.
\<close>

theorem stored_stops_trimmed:
  "(reachable st \<longrightarrow> (\<forall>s\<in>set (stops st). s \<noteq> [] \<and> trim s = s))
   \<and> (reachable_http sth \<longrightarrow> (\<forall>s\<in>set (stops sth). s \<noteq> [] \<and> trim s = s))
   \<and> ((\<forall>s\<in>set (stops fm). s \<noteq> [] \<and> trim s = s) \<longrightarrow>
        (\<forall>s\<in>set (stops (handleAddStop fm)). s \<noteq> [] \<and> trim s = s)
        \<and> (\<forall>s\<in>set (stops (handleRemoveStop i fm)). s \<noteq> [] \<and> trim s = s))"
proof -
  have a: "reachable st \<longrightarrow> (\<forall>s\<in>set (stops st). s \<noteq> [] \<and> trim s = s)"
    unfolding reachable_def
    using reachable_from_trimmed [of init_form apply_action st]
    by (simp add: init_form_def stops_apply_action)
  have b: "reachable_http sth \<longrightarrow> (\<forall>s\<in>set (stops sth). s \<noteq> [] \<and> trim s = s)"
    unfolding reachable_http_def
    using reachable_from_trimmed [of init_form_http apply_action_http sth]
    by (simp add: init_form_http_def stops_apply_action_http)
  show ?thesis
    using a b trimmed_handleAddStop [of fm] trimmed_handleRemoveStop [of fm i] by blast
qed

theorem stored_stops_trimmed_witness:
  "reachable (handleAddStop (setNewStop (js '' Lake Tahoe  '') init_form))
   \<and> reachable_http (handleRemoveStop 0 (handleAddStop (setNewStop (js ''Reno '') init_form_http)))
   \<and> stops (handleAddStop (setNewStop (js '' Lake Tahoe  '') init_form)) = [js ''Lake Tahoe'']
   \<and> list_all (\<lambda>s. s \<noteq> [] \<and> trim s = s)
        (stops (handleAddStop (setNewStop (js '' Lake Tahoe  '') init_form)))
   \<and> list_all (\<lambda>s. s \<noteq> [] \<and> trim s = s)
        (stops (handleRemoveStop 0 (handleAddStop (setNewStop (js ''Reno '') init_form_http))))
   \<and> list_all (\<lambda>s. s \<noteq> [] \<and> trim s = s)
        (stops (init_form\<lparr>stops := [js ''Reno''], newStop := js '' Elko''\<rparr>))
   \<and> list_all (\<lambda>s. s \<noteq> [] \<and> trim s = s)
        (stops (handleAddStop (init_form\<lparr>stops := [js ''Reno''], newStop := js '' Elko''\<rparr>)))
   \<and> list_all (\<lambda>s. s \<noteq> [] \<and> trim s = s)
        (stops (handleRemoveStop 0 (init_form\<lparr>stops := [js ''Reno''], newStop := js '' Elko''\<rparr>)))"
proof -
  have r: "reachable (handleAddStop (setNewStop (js '' Lake Tahoe  '') init_form))"
    unfolding reachable_def
    by (rule reachable_from.added, rule reachable_from.typed, rule reachable_from.initial)
  have rh: "reachable_http (handleRemoveStop 0 (handleAddStop (setNewStop (js ''Reno '') init_form_http)))"
    unfolding reachable_http_def
    by (rule reachable_from.removed, rule reachable_from.added, rule reachable_from.typed,
        rule reachable_from.initial)
  have v: "stops (handleAddStop (setNewStop (js '' Lake Tahoe  '') init_form)) = [js ''Lake Tahoe'']"
    by (simp add: handleAddStop_def setNewStop_def init_form_def trim_def trimEnd_def
        trimStart_def js_def isWhiteSpace_def)
  note t = stored_stops_trimmed [of "handleAddStop (setNewStop (js '' Lake Tahoe  '') init_form)"
        "handleRemoveStop 0 (handleAddStop (setNewStop (js ''Reno '') init_form_http))"
        "init_form\<lparr>stops := [js ''Reno''], newStop := js '' Elko''\<rparr>" 0]
  have f: "\<forall>s\<in>set (stops (init_form\<lparr>stops := [js ''Reno''], newStop := js '' Elko''\<rparr>)).
      s \<noteq> [] \<and> trim s = s"
    by (simp add: init_form_def trim_def trimEnd_def trimStart_def js_def isWhiteSpace_def)
  have c1: "list_all (\<lambda>s. s \<noteq> [] \<and> trim s = s)
        (stops (handleAddStop (setNewStop (js '' Lake Tahoe  '') init_form)))"
    unfolding list_all_iff using t r by blast
  have c2: "list_all (\<lambda>s. s \<noteq> [] \<and> trim s = s)
        (stops (handleRemoveStop 0 (handleAddStop (setNewStop (js ''Reno '') init_form_http))))"
    unfolding list_all_iff using t rh by blast
  have c3: "list_all (\<lambda>s. s \<noteq> [] \<and> trim s = s)
        (stops (init_form\<lparr>stops := [js ''Reno''], newStop := js '' Elko''\<rparr>))"
    unfolding list_all_iff using f .
  have c4: "list_all (\<lambda>s. s \<noteq> [] \<and> trim s = s)
        (stops (handleAddStop (init_form\<lparr>stops := [js ''Reno''], newStop := js '' Elko''\<rparr>)))"
    unfolding list_all_iff using t f by blast
  have c5: "list_all (\<lambda>s. s \<noteq> [] \<and> trim s = s)
        (stops (handleRemoveStop 0 (init_form\<lparr>stops := [js ''Reno''], newStop := js '' Elko''\<rparr>)))"
    unfolding list_all_iff using t f by blast
  show ?thesis
    using r rh v c1 c2 c3 c4 c5 by (intro conjI)
qed

section \<open>Claims about submission\<close>

lemma run_simps:
  "run [] st = st"
  "run (a # as) st = run as (apply_action a st)"
  "run (as @ bs) st = run bs (run as st)"
  by (simp_all add: run_def)

lemma run_http_simps:
  "run_http [] st = st"
  "run_http (a # as) st = run_http as (apply_action_http a st)"
  "run_http (as @ bs) st = run_http bs (run_http as st)"
  by (simp_all add: run_http_def)

lemma js_Nil_iff: "js s = [] \<longleftrightarrow> s = []"
  by (simp add: js_def)

lemma messages_not_empty: "validation_message \<noteq> []" "failure_message \<noteq> []"
  by (simp_all add: validation_message_def failure_message_def js_Nil_iff)

lemma handleSubmit_invalid:
  "tripName st = [] \<or> destination st = [] \<or> currentLocation st = None \<Longrightarrow>
   handleSubmit e cu st = [PreventDefault, SetError validation_message]"
  by (simp add: handleSubmit_def)

lemma handleSubmit_http_invalid:
  "tripName st = [] \<or> destination st = [] \<or> currentLocation st = None \<Longrightarrow>
   handleSubmit_http fetch cu st = [PreventDefault, SetError validation_message]"
  by (simp add: handleSubmit_http_def)

lemma handleSubmit_valid:
  "tripName st \<noteq> [] \<Longrightarrow> destination st \<noteq> [] \<Longrightarrow> currentLocation st = Some loc \<Longrightarrow>
   handleSubmit e cu st =
     [PreventDefault, SetIsLoading True, SetError []]
     @ catch_block (try_block e cu loc st) @ [SetIsLoading False]"
  by (simp add: handleSubmit_def)

lemma handleSubmit_http_valid:
  "tripName st \<noteq> [] \<Longrightarrow> destination st \<noteq> [] \<Longrightarrow> currentLocation st = Some loc \<Longrightarrow>
   handleSubmit_http fetch cu st =
     [PreventDefault, SetIsLoading True, SetError []]
     @ catch_block (try_block_http fetch cu loc st) @ [SetIsLoading False]"
  by (simp add: handleSubmit_http_def)

text \<open>
  Claim C1. In both variants of the component, submitting a form whose trip name is empty,
  whose destination is empty, or whose origin coordinate is null makes no creation call,
  never calls \<open>setIsLoading(true)\<close>, and changes the form in one cell only: the error
  message, set to the (non-empty) validation message. A submission that does make a
  creation call comes from a form with name, destination and origin coordinate all present.
\<close>

theorem submit_invalid_blocked:
  fixes st :: form and sth :: form_http
  shows
  "(tripName st = [] \<or> destination st = [] \<or> currentLocation st = None \<longrightarrow>
      requests (handleSubmit e cu st) = []
      \<and> SetIsLoading True \<notin> set (handleSubmit e cu st)
      \<and> run (handleSubmit e cu st) st = st\<lparr>error := validation_message\<rparr>)
   \<and> (tripName sth = [] \<or> destination sth = [] \<or> currentLocation sth = None \<longrightarrow>
      requests (handleSubmit_http fetch cu sth) = []
      \<and> SetIsLoading True \<notin> set (handleSubmit_http fetch cu sth)
      \<and> run_http (handleSubmit_http fetch cu sth) sth = sth\<lparr>error := validation_message\<rparr>)
   \<and> validation_message \<noteq> []
   \<and> (requests (handleSubmit e cu st) \<noteq> [] \<longrightarrow>
        tripName st \<noteq> [] \<and> destination st \<noteq> [] \<and> currentLocation st \<noteq> None)
   \<and> (requests (handleSubmit_http fetch cu sth) \<noteq> [] \<longrightarrow>
        tripName sth \<noteq> [] \<and> destination sth \<noteq> [] \<and> currentLocation sth \<noteq> None)"
proof -
  have a: "requests (handleSubmit e cu st) = []
      \<and> SetIsLoading True \<notin> set (handleSubmit e cu st)
      \<and> run (handleSubmit e cu st) st = st\<lparr>error := validation_message\<rparr>"
    if "tripName st = [] \<or> destination st = [] \<or> currentLocation st = None"
    by (simp add: handleSubmit_invalid [OF that] requests_def run_simps)
  have b: "requests (handleSubmit_http fetch cu sth) = []
      \<and> SetIsLoading True \<notin> set (handleSubmit_http fetch cu sth)
      \<and> run_http (handleSubmit_http fetch cu sth) sth = sth\<lparr>error := validation_message\<rparr>"
    if "tripName sth = [] \<or> destination sth = [] \<or> currentLocation sth = None"
    by (simp add: handleSubmit_http_invalid [OF that] requests_def run_http_simps)
  show ?thesis
    using a b messages_not_empty(1) by blast
qed

lemma requests_catch_try:
  "requests (catch_block (try_block e cu loc st)) = [CreateTrip (build_tripData (math_random e) cu loc st)]"
  by (simp add: try_block_def catch_block_def requests_def Let_def split: sum.splits option.splits)

lemma requests_catch_try_http:
  "requests (catch_block (try_block_http fetch cu loc st)) =
     [Fetch newtrip_url (build_request (build_tripData_http cu loc st))]"
  by (simp add: try_block_http_def catch_block_def requests_def Let_def
      split: sum.splits option.splits json.splits)

lemma requests_handleSubmit:
  "tripName st \<noteq> [] \<Longrightarrow> destination st \<noteq> [] \<Longrightarrow> currentLocation st = Some loc \<Longrightarrow>
   requests (handleSubmit e cu st) = [CreateTrip (build_tripData (math_random e) cu loc st)]"
  using requests_catch_try [of e cu loc st]
  by (simp add: handleSubmit_valid requests_def)

lemma requests_handleSubmit_http:
  "tripName st \<noteq> [] \<Longrightarrow> destination st \<noteq> [] \<Longrightarrow> currentLocation st = Some loc \<Longrightarrow>
   requests (handleSubmit_http fetch cu st) =
     [Fetch newtrip_url (build_request (build_tripData_http cu loc st))]"
  using requests_catch_try_http [of fetch cu loc st]
  by (simp add: handleSubmit_http_valid requests_def)

lemma weekend_form_simps:
  "tripName weekend_form = js ''Weekend Trip''"
  "destination weekend_form = js ''Boston, MA''"
  "currentLocation weekend_form = Some \<lparr>lat = 40.7, lng = - 74.0\<rparr>"
  "stops weekend_form = []"
  "isLoading weekend_form = False"
  "error weekend_form = []"
  by (simp_all add: weekend_form_def init_form_def)

lemma weekend_form_http_simps:
  "tripName weekend_form_http = js ''Weekend Trip''"
  "destination weekend_form_http = js ''Boston, MA''"
  "currentLocation weekend_form_http = Some \<lparr>lat = 40.7, lng = - 74.0\<rparr>"
  "stops weekend_form_http = []"
  "isLoading weekend_form_http = False"
  "error weekend_form_http = []"
  "shareableLink weekend_form_http = String []"
  "showShareView weekend_form_http = False"
  by (simp_all add: weekend_form_http_def init_form_http_def)


theorem submit_invalid_blocked_witness:
  "(tripName (weekend_form\<lparr>tripName := []\<rparr>) = []
      \<or> destination (weekend_form\<lparr>tripName := []\<rparr>) = []
      \<or> currentLocation (weekend_form\<lparr>tripName := []\<rparr>) = None)
   \<and> requests (handleSubmit env_resolving (Some alice) (weekend_form\<lparr>tripName := []\<rparr>)) = []
   \<and> SetIsLoading True \<notin> set (handleSubmit env_resolving (Some alice) (weekend_form\<lparr>tripName := []\<rparr>))
   \<and> error (run (handleSubmit env_resolving (Some alice) (weekend_form\<lparr>tripName := []\<rparr>))
        (weekend_form\<lparr>tripName := []\<rparr>)) = validation_message
   \<and> (tripName (weekend_form_http\<lparr>currentLocation := None\<rparr>) = []
      \<or> destination (weekend_form_http\<lparr>currentLocation := None\<rparr>) = []
      \<or> currentLocation (weekend_form_http\<lparr>currentLocation := None\<rparr>) = None)
   \<and> requests (handleSubmit_http fetch_created (Some alice) (weekend_form_http\<lparr>currentLocation := None\<rparr>)) = []
   \<and> error (run_http (handleSubmit_http fetch_created (Some alice) (weekend_form_http\<lparr>currentLocation := None\<rparr>))
        (weekend_form_http\<lparr>currentLocation := None\<rparr>)) = validation_message
   \<and> requests (handleSubmit env_resolving (Some alice) weekend_form) \<noteq> []
   \<and> tripName weekend_form \<noteq> [] \<and> destination weekend_form \<noteq> []
   \<and> currentLocation weekend_form \<noteq> None"
proof -
  note t = submit_invalid_blocked [of "weekend_form\<lparr>tripName := []\<rparr>" env_resolving "Some alice"
        "weekend_form_http\<lparr>currentLocation := None\<rparr>" fetch_created]
  note u = submit_invalid_blocked [of weekend_form env_resolving "Some alice"
        "weekend_form_http\<lparr>currentLocation := None\<rparr>" fetch_created]
  have i1: "tripName (weekend_form\<lparr>tripName := []\<rparr>) = []
      \<or> destination (weekend_form\<lparr>tripName := []\<rparr>) = []
      \<or> currentLocation (weekend_form\<lparr>tripName := []\<rparr>) = None"
    by simp
  have i2: "tripName (weekend_form_http\<lparr>currentLocation := None\<rparr>) = []
      \<or> destination (weekend_form_http\<lparr>currentLocation := None\<rparr>) = []
      \<or> currentLocation (weekend_form_http\<lparr>currentLocation := None\<rparr>) = None"
    by simp
  have c1: "requests (handleSubmit env_resolving (Some alice) (weekend_form\<lparr>tripName := []\<rparr>)) = []
      \<and> SetIsLoading True \<notin> set (handleSubmit env_resolving (Some alice) (weekend_form\<lparr>tripName := []\<rparr>))
      \<and> run (handleSubmit env_resolving (Some alice) (weekend_form\<lparr>tripName := []\<rparr>))
          (weekend_form\<lparr>tripName := []\<rparr>) = weekend_form\<lparr>tripName := [], error := validation_message\<rparr>"
    using t i1 by blast
  have c2: "requests (handleSubmit_http fetch_created (Some alice) (weekend_form_http\<lparr>currentLocation := None\<rparr>)) = []
      \<and> run_http (handleSubmit_http fetch_created (Some alice) (weekend_form_http\<lparr>currentLocation := None\<rparr>))
          (weekend_form_http\<lparr>currentLocation := None\<rparr>)
         = weekend_form_http\<lparr>currentLocation := None, error := validation_message\<rparr>"
    using t i2 by blast
  have e1: "error (run (handleSubmit env_resolving (Some alice) (weekend_form\<lparr>tripName := []\<rparr>))
        (weekend_form\<lparr>tripName := []\<rparr>)) = validation_message"
    by (simp add: c1)
  have e2: "error (run_http (handleSubmit_http fetch_created (Some alice) (weekend_form_http\<lparr>currentLocation := None\<rparr>))
        (weekend_form_http\<lparr>currentLocation := None\<rparr>)) = validation_message"
    by (simp add: c2)
  have r: "requests (handleSubmit env_resolving (Some alice) weekend_form) \<noteq> []"
    by (simp add: requests_handleSubmit [of weekend_form "\<lparr>lat = 40.7, lng = - 74.0\<rparr>"]
        weekend_form_simps js_Nil_iff)
  have c3: "tripName weekend_form \<noteq> [] \<and> destination weekend_form \<noteq> []
      \<and> currentLocation weekend_form \<noteq> None"
    using u r by blast
  show ?thesis
    using i1 c1 i2 c2 e1 e2 r c3 by blast
qed

lemma run_catch_try:
  "run (catch_block (try_block e cu loc st)) s =
     (case snd (try_block e cu loc st) of None \<Rightarrow> s | Some x \<Rightarrow> s\<lparr>error := failure_message\<rparr>)"
  by (simp add: try_block_def catch_block_def run_simps Let_def split: sum.splits option.splits)

lemma try_block_outcome:
  "snd (try_block e cu loc st) =
     (case createTrip e (build_tripData (math_random e) cu loc st) of
        Inl x \<Rightarrow> Some x
      | Inr tripId \<Rightarrow>
          (case onClose e of
             Some x \<Rightarrow> Some x
           | None \<Rightarrow> navigate e (js ''/trip/'' @ tripId)))"
  by (simp add: try_block_def Let_def split: sum.splits option.splits)

lemma run_handleSubmit_valid:
  fixes st :: form
  shows "tripName st \<noteq> [] \<Longrightarrow> destination st \<noteq> [] \<Longrightarrow> currentLocation st = Some loc \<Longrightarrow>
   run (handleSubmit e cu st) st =
     (case snd (try_block e cu loc st) of
        None \<Rightarrow> st\<lparr>isLoading := False, error := []\<rparr>
      | Some x \<Rightarrow> st\<lparr>isLoading := False, error := failure_message\<rparr>)"
  by (simp add: handleSubmit_valid run_simps run_catch_try split: option.splits)

lemma try_block_http_outcome:
  "snd (try_block_http fetch cu loc st) =
     (case fetch newtrip_url (build_request (build_tripData_http cu loc st)) of
        Inl x \<Rightarrow> Some x
      | Inr resp \<Rightarrow>
          if \<not> ok resp then Some (Error (js ''Failed to create trip''))
          else (case json resp of
                  Inl x \<Rightarrow> Some x
                | Inr JsonNull \<Rightarrow> Some TypeError
                | Inr (JsonValue v) \<Rightarrow> None))"
  by (simp add: try_block_http_def Let_def split: sum.splits json.splits)

lemma run_http_catch_try:
  "run_http (catch_block (try_block_http fetch cu loc st)) s =
     (case fetch newtrip_url (build_request (build_tripData_http cu loc st)) of
        Inl x \<Rightarrow> s\<lparr>error := failure_message\<rparr>
      | Inr resp \<Rightarrow>
          if \<not> ok resp then s\<lparr>error := failure_message\<rparr>
          else (case json resp of
                  Inl x \<Rightarrow> s\<lparr>error := failure_message\<rparr>
                | Inr JsonNull \<Rightarrow> s\<lparr>error := failure_message\<rparr>
                | Inr (JsonValue v) \<Rightarrow> s\<lparr>shareableLink := v, showShareView := True\<rparr>))"
  by (simp add: try_block_http_def catch_block_def run_http_simps Let_def
      split: sum.splits json.splits)

lemma run_handleSubmit_http_valid:
  fixes st :: form_http
  shows "tripName st \<noteq> [] \<Longrightarrow> destination st \<noteq> [] \<Longrightarrow> currentLocation st = Some loc \<Longrightarrow>
   run_http (handleSubmit_http fetch cu st) st =
     (run_http (catch_block (try_block_http fetch cu loc st)) (st\<lparr>isLoading := True, error := []\<rparr>))
       \<lparr>isLoading := False\<rparr>"
  by (simp add: handleSubmit_http_valid run_http_simps)

lemma weekend_valid:
  "tripName weekend_form \<noteq> []" "destination weekend_form \<noteq> []"
  "tripName weekend_form_http \<noteq> []" "destination weekend_form_http \<noteq> []"
  by (simp_all add: weekend_form_simps weekend_form_http_simps js_Nil_iff)

text \<open>
  Claim C2. A submission of a form with name, destination and origin coordinate present
  ends with the loading flag false, so the submit control is enabled again, in both
  variants. When creation succeeds (the delegated variant: \<open>createTrip\<close> resolves and the
  form is closed and left; the HTTP variant: the response is \<open>ok\<close> and its body parses to
  a value) the error message is the empty string. When it fails (\<open>createTrip\<close> or \<open>fetch\<close>
  rejects, the status is not a success, the body does not parse or is \<open>null\<close>, a callback
  throws) the error message is the fixed generic message, which is not empty. Every awaited
  promise is taken to settle.
\<close>

theorem submit_valid_settles:
  fixes st :: form and sth :: form_http
  assumes "tripName st \<noteq> []" and "destination st \<noteq> []" and "currentLocation st = Some loc"
    and "tripName sth \<noteq> []" and "destination sth \<noteq> []" and "currentLocation sth = Some loch"
  shows
  "isLoading (run (handleSubmit e cu st) st) = False
   \<and> (createTrip e (build_tripData (math_random e) cu loc st) = Inr tripId
        \<and> onClose e = None \<and> navigate e (js ''/trip/'' @ tripId) = None \<longrightarrow>
      error (run (handleSubmit e cu st) st) = [])
   \<and> (createTrip e (build_tripData (math_random e) cu loc st) = Inl x \<longrightarrow>
      error (run (handleSubmit e cu st) st) = failure_message)
   \<and> (createTrip e (build_tripData (math_random e) cu loc st) = Inr tripId
        \<and> (onClose e \<noteq> None \<or> navigate e (js ''/trip/'' @ tripId) \<noteq> None) \<longrightarrow>
      error (run (handleSubmit e cu st) st) = failure_message)
   \<and> isLoading (run_http (handleSubmit_http fetch cu sth) sth) = False
   \<and> (fetch newtrip_url (build_request (build_tripData_http cu loch sth)) = Inr resp
        \<and> ok resp \<and> json resp = Inr (JsonValue v) \<longrightarrow>
      error (run_http (handleSubmit_http fetch cu sth) sth) = [])
   \<and> (fetch newtrip_url (build_request (build_tripData_http cu loch sth)) = Inl x \<longrightarrow>
      error (run_http (handleSubmit_http fetch cu sth) sth) = failure_message)
   \<and> (fetch newtrip_url (build_request (build_tripData_http cu loch sth)) = Inr resp
        \<and> \<not> ok resp \<longrightarrow>
      error (run_http (handleSubmit_http fetch cu sth) sth) = failure_message)
   \<and> (fetch newtrip_url (build_request (build_tripData_http cu loch sth)) = Inr resp
        \<and> ok resp \<and> (json resp = Inl x \<or> json resp = Inr JsonNull) \<longrightarrow>
      error (run_http (handleSubmit_http fetch cu sth) sth) = failure_message)
   \<and> failure_message \<noteq> []"
proof -
  note b = run_handleSubmit_valid [OF assms(1-3), of e cu] try_block_outcome [of e cu loc st]
  note h = run_handleSubmit_http_valid [OF assms(4-6), of fetch cu]
    run_http_catch_try [of fetch cu loch sth]
  have b1: "isLoading (run (handleSubmit e cu st) st) = False"
    by (simp add: b split: sum.splits option.splits)
  have b2: "error (run (handleSubmit e cu st) st) = []"
    if "createTrip e (build_tripData (math_random e) cu loc st) = Inr tripId"
      and "onClose e = None" and "navigate e (js ''/trip/'' @ tripId) = None"
    using that by (simp add: b)
  have b3: "error (run (handleSubmit e cu st) st) = failure_message"
    if "createTrip e (build_tripData (math_random e) cu loc st) = Inl x"
    using that by (simp add: b)
  have b4: "error (run (handleSubmit e cu st) st) = failure_message"
    if "createTrip e (build_tripData (math_random e) cu loc st) = Inr tripId"
      and "onClose e \<noteq> None \<or> navigate e (js ''/trip/'' @ tripId) \<noteq> None"
    using that by (auto simp: b split: option.splits)
  have h1: "isLoading (run_http (handleSubmit_http fetch cu sth) sth) = False"
    by (simp add: h)
  have h2: "error (run_http (handleSubmit_http fetch cu sth) sth) = []"
    if "fetch newtrip_url (build_request (build_tripData_http cu loch sth)) = Inr resp"
      and "ok resp" and "json resp = Inr (JsonValue v)"
    using that by (simp add: h)
  have h3: "error (run_http (handleSubmit_http fetch cu sth) sth) = failure_message"
    if "fetch newtrip_url (build_request (build_tripData_http cu loch sth)) = Inl x"
    using that by (simp add: h)
  have h4: "error (run_http (handleSubmit_http fetch cu sth) sth) = failure_message"
    if "fetch newtrip_url (build_request (build_tripData_http cu loch sth)) = Inr resp"
      and "\<not> ok resp"
    using that by (simp add: h)
  have h5: "error (run_http (handleSubmit_http fetch cu sth) sth) = failure_message"
    if "fetch newtrip_url (build_request (build_tripData_http cu loch sth)) = Inr resp"
      and "ok resp" and "json resp = Inl x \<or> json resp = Inr JsonNull"
    using that by (auto simp: h)
  show ?thesis
    using b1 b2 b3 b4 h1 h2 h3 h4 h5 messages_not_empty(2) by blast
qed

theorem submit_valid_settles_witness:
  "tripName weekend_form \<noteq> [] \<and> destination weekend_form \<noteq> []
   \<and> currentLocation weekend_form = Some \<lparr>lat = 40.7, lng = - 74.0\<rparr>
   \<and> tripName weekend_form_http \<noteq> [] \<and> destination weekend_form_http \<noteq> []
   \<and> currentLocation weekend_form_http = Some \<lparr>lat = 40.7, lng = - 74.0\<rparr>
   \<and> isLoading (run (handleSubmit env_resolving (Some alice) weekend_form) weekend_form) = False
   \<and> error (run (handleSubmit env_resolving (Some alice) weekend_form) weekend_form) = []
   \<and> isLoading (run (handleSubmit env_rejecting (Some alice) weekend_form) weekend_form) = False
   \<and> error (run (handleSubmit env_rejecting (Some alice) weekend_form) weekend_form) = failure_message
   \<and> isLoading (run_http (handleSubmit_http fetch_created (Some alice) weekend_form_http) weekend_form_http) = False
   \<and> error (run_http (handleSubmit_http fetch_created (Some alice) weekend_form_http) weekend_form_http) = []
   \<and> error (run_http (handleSubmit_http fetch_refused (Some alice) weekend_form_http) weekend_form_http)
       = failure_message
   \<and> error (run_http (handleSubmit_http fetch_offline (Some alice) weekend_form_http) weekend_form_http)
       = failure_message"
proof -
  note ok = submit_valid_settles [OF weekend_valid(1,2) weekend_form_simps(3)
      weekend_valid(3,4) weekend_form_http_simps(3),
      where e = env_resolving and cu = "Some alice" and tripId = "js ''t7''"
        and fetch = fetch_created
        and resp = "\<lparr>ok = True, json = Inr (JsonValue (String (js ''https://mapsync.example/t7'')))\<rparr>"
        and v = "String (js ''https://mapsync.example/t7'')"]
  note ko = submit_valid_settles [OF weekend_valid(1,2) weekend_form_simps(3)
      weekend_valid(3,4) weekend_form_http_simps(3),
      where e = env_rejecting and cu = "Some alice" and x = "External 1"
        and fetch = fetch_refused and resp = "\<lparr>ok = False, json = Inr JsonNull\<rparr>"]
  note off = submit_valid_settles [OF weekend_valid(1,2) weekend_form_simps(3)
      weekend_valid(3,4) weekend_form_http_simps(3),
      where e = env_rejecting and cu = "Some alice" and x = "External 2"
        and fetch = fetch_offline]
  have a1: "isLoading (run (handleSubmit env_resolving (Some alice) weekend_form) weekend_form) = False"
    and a2: "isLoading (run_http (handleSubmit_http fetch_created (Some alice) weekend_form_http) weekend_form_http) = False"
    using ok by blast+
  have a3: "error (run (handleSubmit env_resolving (Some alice) weekend_form) weekend_form) = []"
    using ok by (simp add: env_resolving_def)
  have a4: "error (run_http (handleSubmit_http fetch_created (Some alice) weekend_form_http) weekend_form_http) = []"
    using ok by (simp add: fetch_created_def)
  have a5: "isLoading (run (handleSubmit env_rejecting (Some alice) weekend_form) weekend_form) = False"
    using ko by blast
  have a6: "error (run (handleSubmit env_rejecting (Some alice) weekend_form) weekend_form) = failure_message"
    using ko by (simp add: env_rejecting_def)
  have a7: "error (run_http (handleSubmit_http fetch_refused (Some alice) weekend_form_http) weekend_form_http)
       = failure_message"
    using ko by (simp add: fetch_refused_def)
  have a8: "error (run_http (handleSubmit_http fetch_offline (Some alice) weekend_form_http) weekend_form_http)
       = failure_message"
    using off by (simp add: fetch_offline_def)
  show ?thesis
    using weekend_valid weekend_form_simps(3) weekend_form_http_simps(3) a1 a2 a3 a4 a5 a6 a7 a8
    by blast
qed

text \<open>
  Claim C7. In the direct HTTP variant, a valid draft issues one request, a POST of the
  payload to the fixed endpoint; the payload has the coordinates \<open>{lat: 0, lng: 0}\<close> for
  the destination and for every stop, and the stops are the draft's, in order. A response
  whose status is not a success takes the generic failure path (the error thrown is logged,
  the generic message is shown, the share view is not entered). On a success response with
  a parsed body, the \<open>shareLink\<close> of the body becomes the shareable link and the share
  view is shown.
\<close>

theorem http_submission:
  fixes sth :: form_http
  assumes "tripName sth \<noteq> []" and "destination sth \<noteq> []" and "currentLocation sth = Some loc"
  shows
  "requests (handleSubmit_http fetch cu sth) =
      [Fetch newtrip_url (build_request (build_tripData_http cu loc sth))]
   \<and> body (build_request (build_tripData_http cu loc sth)) = build_tripData_http cu loc sth
   \<and> location (http_destination (build_tripData_http cu loc sth)) = \<lparr>lat = 0, lng = 0\<rparr>
   \<and> (\<forall>p\<in>set (http_stops (build_tripData_http cu loc sth)). location p = \<lparr>lat = 0, lng = 0\<rparr>)
   \<and> map name (http_stops (build_tripData_http cu loc sth)) = stops sth
   \<and> (fetch newtrip_url (build_request (build_tripData_http cu loc sth)) = Inr resp
        \<and> \<not> ok resp \<longrightarrow>
      error (run_http (handleSubmit_http fetch cu sth) sth) = failure_message
      \<and> ConsoleError (Error (js ''Failed to create trip'')) \<in> set (handleSubmit_http fetch cu sth)
      \<and> shareableLink (run_http (handleSubmit_http fetch cu sth) sth) = shareableLink sth
      \<and> showShareView (run_http (handleSubmit_http fetch cu sth) sth) = showShareView sth)
   \<and> (fetch newtrip_url (build_request (build_tripData_http cu loc sth)) = Inr resp
        \<and> ok resp \<and> json resp = Inr (JsonValue shareLink) \<longrightarrow>
      shareableLink (run_http (handleSubmit_http fetch cu sth) sth) = shareLink
      \<and> showShareView (run_http (handleSubmit_http fetch cu sth) sth) = True)"
proof -
  note h = run_handleSubmit_http_valid [OF assms, of fetch cu]
    run_http_catch_try [of fetch cu loc sth]
  have p1: "requests (handleSubmit_http fetch cu sth) =
      [Fetch newtrip_url (build_request (build_tripData_http cu loc sth))]"
    using assms by (rule requests_handleSubmit_http)
  have p2: "body (build_request (build_tripData_http cu loc sth)) = build_tripData_http cu loc sth"
    by (simp add: build_request_def)
  have p3: "location (http_destination (build_tripData_http cu loc sth)) = \<lparr>lat = 0, lng = 0\<rparr>"
    by (simp add: build_tripData_http_def zero_coordinates_def)
  have p4: "\<forall>p\<in>set (http_stops (build_tripData_http cu loc sth)). location p = \<lparr>lat = 0, lng = 0\<rparr>"
    by (auto simp: build_tripData_http_def zero_coordinates_def)
  have p5: "map name (http_stops (build_tripData_http cu loc sth)) = stops sth"
    by (simp add: build_tripData_http_def comp_def)
  have p6: "error (run_http (handleSubmit_http fetch cu sth) sth) = failure_message
      \<and> ConsoleError (Error (js ''Failed to create trip'')) \<in> set (handleSubmit_http fetch cu sth)
      \<and> shareableLink (run_http (handleSubmit_http fetch cu sth) sth) = shareableLink sth
      \<and> showShareView (run_http (handleSubmit_http fetch cu sth) sth) = showShareView sth"
    if "fetch newtrip_url (build_request (build_tripData_http cu loc sth)) = Inr resp"
      and "\<not> ok resp"
  proof -
    have "ConsoleError (Error (js ''Failed to create trip'')) \<in> set (handleSubmit_http fetch cu sth)"
      using that by (simp add: handleSubmit_http_valid [OF assms] catch_block_def try_block_http_def)
    moreover have "run_http (handleSubmit_http fetch cu sth) sth =
        sth\<lparr>isLoading := False, error := failure_message\<rparr>"
      using that by (simp add: h)
    ultimately show ?thesis by simp
  qed
  have p7: "shareableLink (run_http (handleSubmit_http fetch cu sth) sth) = shareLink
      \<and> showShareView (run_http (handleSubmit_http fetch cu sth) sth) = True"
    if "fetch newtrip_url (build_request (build_tripData_http cu loc sth)) = Inr resp"
      and "ok resp" and "json resp = Inr (JsonValue shareLink)"
    using that by (simp add: h)
  show ?thesis
    using p1 p2 p3 p4 p5 p6 p7 by blast
qed

theorem http_submission_witness:
  "tripName (weekend_form_http\<lparr>stops := [js ''Salem'']\<rparr>) \<noteq> []
   \<and> destination (weekend_form_http\<lparr>stops := [js ''Salem'']\<rparr>) \<noteq> []
   \<and> currentLocation (weekend_form_http\<lparr>stops := [js ''Salem'']\<rparr>) = Some \<lparr>lat = 40.7, lng = - 74.0\<rparr>
   \<and> map stop_names (requests (handleSubmit_http fetch_created None
          (weekend_form_http\<lparr>stops := [js ''Salem'']\<rparr>))) = [Some [js ''Salem'']]
   \<and> list_all (\<lambda>p. location p = \<lparr>lat = 0, lng = 0\<rparr>)
        (http_stops (build_tripData_http None \<lparr>lat = 40.7, lng = - 74.0\<rparr>
          (weekend_form_http\<lparr>stops := [js ''Salem'']\<rparr>)))
   \<and> error (run_http (handleSubmit_http fetch_refused None (weekend_form_http\<lparr>stops := [js ''Salem'']\<rparr>))
        (weekend_form_http\<lparr>stops := [js ''Salem'']\<rparr>)) = failure_message
   \<and> showShareView (run_http (handleSubmit_http fetch_refused None (weekend_form_http\<lparr>stops := [js ''Salem'']\<rparr>))
        (weekend_form_http\<lparr>stops := [js ''Salem'']\<rparr>)) = False
   \<and> shareableLink (run_http (handleSubmit_http fetch_created None (weekend_form_http\<lparr>stops := [js ''Salem'']\<rparr>))
        (weekend_form_http\<lparr>stops := [js ''Salem'']\<rparr>)) = String (js ''https://mapsync.example/t7'')
   \<and> showShareView (run_http (handleSubmit_http fetch_created None (weekend_form_http\<lparr>stops := [js ''Salem'']\<rparr>))
        (weekend_form_http\<lparr>stops := [js ''Salem'']\<rparr>)) = True"
proof -
  have v: "tripName (weekend_form_http\<lparr>stops := [js ''Salem'']\<rparr>) \<noteq> []"
    "destination (weekend_form_http\<lparr>stops := [js ''Salem'']\<rparr>) \<noteq> []"
    "currentLocation (weekend_form_http\<lparr>stops := [js ''Salem'']\<rparr>) = Some \<lparr>lat = 40.7, lng = - 74.0\<rparr>"
    by (simp_all add: weekend_form_http_simps js_Nil_iff)
  have w: "showShareView (weekend_form_http\<lparr>stops := [js ''Salem'']\<rparr>) = False"
    "stops (weekend_form_http\<lparr>stops := [js ''Salem'']\<rparr>) = [js ''Salem'']"
    by (simp_all add: weekend_form_http_simps)
  note ok = http_submission [OF v, where fetch = fetch_created and cu = None
      and resp = "\<lparr>ok = True, json = Inr (JsonValue (String (js ''https://mapsync.example/t7'')))\<rparr>"
      and shareLink = "String (js ''https://mapsync.example/t7'')"]
  note ko = http_submission [OF v, where fetch = fetch_refused and cu = None
      and resp = "\<lparr>ok = False, json = Inr JsonNull\<rparr>"]
  have a1: "map stop_names (requests (handleSubmit_http fetch_created None
          (weekend_form_http\<lparr>stops := [js ''Salem'']\<rparr>))) = [Some [js ''Salem'']]"
    using ok w(2) by simp
  have a2: "list_all (\<lambda>p. location p = \<lparr>lat = 0, lng = 0\<rparr>)
        (http_stops (build_tripData_http None \<lparr>lat = 40.7, lng = - 74.0\<rparr>
          (weekend_form_http\<lparr>stops := [js ''Salem'']\<rparr>)))"
    unfolding list_all_iff using ok by blast
  have a3: "error (run_http (handleSubmit_http fetch_refused None (weekend_form_http\<lparr>stops := [js ''Salem'']\<rparr>))
        (weekend_form_http\<lparr>stops := [js ''Salem'']\<rparr>)) = failure_message
     \<and> showShareView (run_http (handleSubmit_http fetch_refused None (weekend_form_http\<lparr>stops := [js ''Salem'']\<rparr>))
        (weekend_form_http\<lparr>stops := [js ''Salem'']\<rparr>)) = False"
    using ko w(1) by (simp add: fetch_refused_def)
  have a4: "shareableLink (run_http (handleSubmit_http fetch_created None (weekend_form_http\<lparr>stops := [js ''Salem'']\<rparr>))
        (weekend_form_http\<lparr>stops := [js ''Salem'']\<rparr>)) = String (js ''https://mapsync.example/t7'')
     \<and> showShareView (run_http (handleSubmit_http fetch_created None (weekend_form_http\<lparr>stops := [js ''Salem'']\<rparr>))
        (weekend_form_http\<lparr>stops := [js ''Salem'']\<rparr>)) = True"
    using ok by (simp add: fetch_created_def)
  show ?thesis
    using v a1 a2 a3 a4 by blast
qed

section \<open>The creator of a trip\<close>

text \<open>
  Claim C3, amended. A submission of a form with name, destination and origin coordinate
  present and no stops issues exactly one creation request, whose stops are the empty list.
  Its \<open>createdBy\<close> is the uid of the session when a user with a non-empty uid is signed
  in. Otherwise it is the fallback of the variant: \<open>'user123'\<close> in the delegated variant
  (with no user, and also with a user whose uid is the empty string), the empty string in
  the HTTP variant.
\<close>

theorem single_creation_request:
  fixes st :: form and sth :: form_http
  assumes "tripName st \<noteq> []" and "destination st \<noteq> []" and "currentLocation st = Some loc"
    and "stops st = []"
    and "tripName sth \<noteq> []" and "destination sth \<noteq> []" and "currentLocation sth = Some loch"
    and "stops sth = []"
  shows
  "length (requests (handleSubmit e cu st)) = 1
   \<and> map stop_names (requests (handleSubmit e cu st)) = [Some []]
   \<and> map created_by (requests (handleSubmit e cu st)) =
       [Some (case cu of
                None \<Rightarrow> js ''user123''
              | Some u \<Rightarrow> if uid u = [] then js ''user123'' else uid u)]
   \<and> length (requests (handleSubmit_http fetch cu sth)) = 1
   \<and> map stop_names (requests (handleSubmit_http fetch cu sth)) = [Some []]
   \<and> map created_by (requests (handleSubmit_http fetch cu sth)) =
       [Some (case cu of None \<Rightarrow> [] | Some u \<Rightarrow> uid u)]"
proof -
  note b = requests_handleSubmit [OF assms(1-3), of e cu]
  note h = requests_handleSubmit_http [OF assms(5-7), of fetch cu]
  have b2: "map stop_names (requests (handleSubmit e cu st)) = [Some []]"
    by (simp add: b build_tripData_def stopsData_def assms(4))
  have b3: "map created_by (requests (handleSubmit e cu st)) =
       [Some (case cu of
                None \<Rightarrow> js ''user123''
              | Some u \<Rightarrow> if uid u = [] then js ''user123'' else uid u)]"
    by (simp add: b build_tripData_def uid_or_def)
  have h2: "map stop_names (requests (handleSubmit_http fetch cu sth)) = [Some []]"
    by (simp add: h build_tripData_http_def build_request_def assms(8))
  have h3: "map created_by (requests (handleSubmit_http fetch cu sth)) =
       [Some (case cu of None \<Rightarrow> [] | Some u \<Rightarrow> uid u)]"
    by (simp add: h build_tripData_http_def build_request_def uid_or_def split: option.splits)
  show ?thesis
    using b2 b3 h2 h3 by (simp add: b h)
qed

theorem single_creation_request_witness:
  "tripName weekend_form \<noteq> [] \<and> destination weekend_form \<noteq> []
   \<and> currentLocation weekend_form = Some \<lparr>lat = 40.7, lng = - 74.0\<rparr>
   \<and> stops weekend_form = []
   \<and> tripName weekend_form_http \<noteq> [] \<and> destination weekend_form_http \<noteq> []
   \<and> currentLocation weekend_form_http = Some \<lparr>lat = 40.7, lng = - 74.0\<rparr>
   \<and> stops weekend_form_http = []
   \<and> length (requests (handleSubmit env_resolving (Some alice) weekend_form)) = 1
   \<and> map stop_names (requests (handleSubmit env_resolving (Some alice) weekend_form)) = [Some []]
   \<and> map created_by (requests (handleSubmit env_resolving (Some alice) weekend_form)) = [Some (js ''u42'')]
   \<and> map created_by (requests (handleSubmit env_rejecting None weekend_form)) = [Some (js ''user123'')]
   \<and> length (requests (handleSubmit_http fetch_created (Some alice) weekend_form_http)) = 1
   \<and> map stop_names (requests (handleSubmit_http fetch_created (Some alice) weekend_form_http)) = [Some []]
   \<and> map created_by (requests (handleSubmit_http fetch_created (Some alice) weekend_form_http))
       = [Some (js ''u42'')]
   \<and> map created_by (requests (handleSubmit_http fetch_offline None weekend_form_http)) = [Some []]"
proof -
  note a = single_creation_request [OF weekend_valid(1,2) weekend_form_simps(3,4)
      weekend_valid(3,4) weekend_form_http_simps(3,4),
      where e = env_resolving and cu = "Some alice" and fetch = fetch_created]
  note b = single_creation_request [OF weekend_valid(1,2) weekend_form_simps(3,4)
      weekend_valid(3,4) weekend_form_http_simps(3,4),
      where e = env_rejecting and cu = None and fetch = fetch_offline]
  have u: "uid alice = js ''u42''" and n: "js ''u42'' \<noteq> []"
    by (simp_all add: alice_def js_Nil_iff)
  have a1: "length (requests (handleSubmit env_resolving (Some alice) weekend_form)) = 1"
    and a2: "map stop_names (requests (handleSubmit env_resolving (Some alice) weekend_form)) = [Some []]"
    and a3: "length (requests (handleSubmit_http fetch_created (Some alice) weekend_form_http)) = 1"
    and a4: "map stop_names (requests (handleSubmit_http fetch_created (Some alice) weekend_form_http)) = [Some []]"
    using a by blast+
  have a5: "map created_by (requests (handleSubmit env_resolving (Some alice) weekend_form)) = [Some (js ''u42'')]"
    and a6: "map created_by (requests (handleSubmit_http fetch_created (Some alice) weekend_form_http))
       = [Some (js ''u42'')]"
    using a u n by simp_all
  have b1: "map created_by (requests (handleSubmit env_rejecting None weekend_form)) = [Some (js ''user123'')]"
    and b2: "map created_by (requests (handleSubmit_http fetch_offline None weekend_form_http)) = [Some []]"
    using b by simp_all
  show ?thesis
    using weekend_valid weekend_form_simps(3,4) weekend_form_http_simps(3,4)
      a1 a2 a3 a4 a5 a6 b1 b2
    by blast
qed

text \<open>
  Claim C3 as first stated asks \<open>createdBy\<close> to be the session's uid whenever a user is
  signed in. In the delegated variant, the scenario of the specification submitted by a
  signed-in user whose uid is the empty string is created by \<open>'user123'\<close>, which is not
  that uid: \<open>||\<close> replaces every falsy uid.
\<close>

theorem createdBy_counterexample:
  "tripName weekend_form \<noteq> [] \<and> destination weekend_form \<noteq> []
   \<and> currentLocation weekend_form = Some \<lparr>lat = 40.7, lng = - 74.0\<rparr>
   \<and> stops weekend_form = []
   \<and> uid nameless = []
   \<and> map created_by (requests (handleSubmit env_resolving (Some nameless) weekend_form))
       = [Some (js ''user123'')]
   \<and> map created_by (requests (handleSubmit env_resolving (Some nameless) weekend_form))
       \<noteq> [Some (uid nameless)]"
proof -
  have r: "map created_by (requests (handleSubmit env_resolving (Some nameless) weekend_form))
       = [Some (js ''user123'')]"
    by (simp add: requests_handleSubmit [OF weekend_valid(1,2) weekend_form_simps(3)]
        build_tripData_def uid_or_def nameless_def)
  have n: "uid nameless = []" and d: "js ''user123'' \<noteq> []"
    by (simp_all add: nameless_def js_Nil_iff)
  show ?thesis
    using r n d weekend_valid(1,2) weekend_form_simps(3,4) by simp
qed

section \<open>Claims about the session manager\<close>

text \<open>
  Claim C6. Whatever the session was, a logout whose provider call succeeds leaves the
  current user null and local storage without its \<open>'user'\<close> entry (its other entries as
  they were), and the promise resolves.
\<close>

theorem logout_clears_session:
  "currentUser (run_auth (fst (logout (Inr ()))) st) = None
   \<and> localStorage (run_auth (fst (logout (Inr ()))) st) = (localStorage st)(js ''user'' := None)
   \<and> localStorage (run_auth (fst (logout (Inr ()))) st) (js ''user'') = None
   \<and> loading (run_auth (fst (logout (Inr ()))) st) = loading st
   \<and> snd (logout (Inr ())) = None"
  by (simp add: logout_def run_auth_def)

theorem logout_clears_session_witness:
  "currentUser signed_in = Some alice
   \<and> localStorage signed_in (js ''user'') = Some (js ''u42'')
   \<and> currentUser (run_auth (fst (logout (Inr ()))) signed_in) = None
   \<and> localStorage (run_auth (fst (logout (Inr ()))) signed_in) (js ''user'') = None
   \<and> localStorage (run_auth (fst (logout (Inr ()))) signed_in) (js ''theme'') = Some (js ''dark'')
   \<and> currentUser (run_auth (fst (logout (Inr ()))) (init_auth Map.empty)) = None"
proof -
  have k: "js ''user'' \<noteq> js ''theme''" by (simp add: js_def)
  show ?thesis
    using k logout_clears_session [of signed_in] logout_clears_session [of "init_auth Map.empty"]
    by (simp add: signed_in_def)
qed

text \<open>
  Claim C10. When the provider call of \<open>login\<close> or of \<open>logout\<close> fails, the only calls
  made are the provider call and the logging of the error: no user is set, the user and
  local storage are not cleared, the session state is what it was, and the promise rejects
  with the provider's error.
\<close>

theorem provider_failure_atomic:
  "run_auth (fst (login (Inl x))) st = st
   \<and> snd (login (Inl x)) = Some x
   \<and> fst (login (Inl x)) = [SignInWithPopup, ConsoleErrorAuth (js ''Error during login:'') x]
   \<and> run_auth (fst (logout (Inl x))) st = st
   \<and> snd (logout (Inl x)) = Some x
   \<and> fst (logout (Inl x)) = [SignOut, ConsoleErrorAuth (js ''Error during logout:'') x]"
  by (simp add: login_def logout_def run_auth_def)

theorem provider_failure_atomic_witness:
  "run_auth (fst (login (Inl (External 3)))) signed_in = signed_in
   \<and> snd (login (Inl (External 3))) = Some (External 3)
   \<and> run_auth (fst (logout (Inl (External 4)))) signed_in = signed_in
   \<and> snd (logout (Inl (External 4))) = Some (External 4)
   \<and> currentUser (run_auth (fst (login (Inl (External 3)))) (init_auth Map.empty)) = None
   \<and> currentUser (run_auth (fst (logout (Inl (External 4)))) signed_in) = Some alice
   \<and> localStorage (run_auth (fst (logout (Inl (External 4)))) signed_in) (js ''user'') = Some (js ''u42'')
   \<and> currentUser (run_auth (fst (login (Inr alice_firebase))) (init_auth Map.empty)) = Some alice"
proof -
  note a = provider_failure_atomic [of "External 3" signed_in]
  note b = provider_failure_atomic [of "External 4" signed_in]
  note c = provider_failure_atomic [of "External 3" "init_auth Map.empty"]
  have s: "currentUser (run_auth (fst (login (Inr alice_firebase))) (init_auth Map.empty)) = Some alice"
    by (simp add: login_def run_auth_def init_auth_def snapshot_def alice_firebase_def alice_def)
  have u: "currentUser signed_in = Some alice"
    and m: "localStorage signed_in (js ''user'') = Some (js ''u42'')"
    and n: "currentUser (init_auth Map.empty) = None"
    by (simp_all add: signed_in_def init_auth_def js_def)
  have c1: "run_auth (fst (login (Inl (External 3)))) signed_in = signed_in"
    and c2: "snd (login (Inl (External 3))) = Some (External 3)"
    using a by blast+
  have c3: "run_auth (fst (logout (Inl (External 4)))) signed_in = signed_in"
    and c4: "snd (logout (Inl (External 4))) = Some (External 4)"
    using b by blast+
  have c5: "run_auth (fst (login (Inl (External 3)))) (init_auth Map.empty) = init_auth Map.empty"
    using c by blast
  show ?thesis
    using s u m n c1 c2 c3 c4 c5 by simp
qed

end
